theory Spec2Isabelle
  imports Main "HOL-Library.AList"
begin

text \<open>
  A model of \<open>configmanager/meta.py\<close>: typed configuration sections bound to the
  sections of an INI file. Classes, instances, the parser and the files are values; a
  method that raises returns the exception as \<open>Inl\<close>, and a method that changes an object
  or a class returns the changed one.
\<close>

section \<open>Python values, declared types and failures\<close>

text \<open>
  The scalar values a section field can hold; strings are ASCII strings, a part of
  Python's \<open>str\<close>. A Python value is \<open>None\<close> or an object: \<open>'v option\<close>, so that
  \<open>x is None\<close> is \<open>x = None\<close> for the values of every record kind.
\<close>

datatype scalar = VBool bool | VInt int | VStr string

type_synonym pyval = "scalar option"

text \<open>
  A type annotation is a class or \<open>Optional[t]\<close>, which is \<open>Union[t, None]\<close>. The
  classes of section fields are the scalar classes \<open>bool\<close>, \<open>int\<close> and \<open>str\<close>.
\<close>

datatype 'c pytype = TClass 'c | TOptional "'c pytype"

datatype scalar_class = PyBool | PyInt | PyStr

text \<open>
  The section name of a section class: the sentinel object \<open>AUTO_NAME\<close> or a string.
  (\<open>__init_subclass__\<close> refuses a subclass whose \<open>section_name\<close> is \<open>None\<close>.)
\<close>

datatype secname = AUTO_NAME | Fixed string

type_synonym path = string

text \<open>
  Every exception the code can raise is a value. The constructors carry the names that
  the messages are built from; the Python class of each is given on the right.
\<close>

datatype pyerr =
    MissingRequiredField string          \<comment> \<open>\<open>TypeError\<close>, meta.py line 66\<close>
  | UninitializedSectionName             \<comment> \<open>\<open>AssertionError\<close>, line 100\<close>
  | UnknownFieldName "string set"        \<comment> \<open>\<open>KeyError\<close>, line 114\<close>
  | SectionNameMismatch secname secname  \<comment> \<open>\<open>ValueError\<close>, line 136\<close>
  | SchemaFieldTypeError "string set"    \<comment> \<open>\<open>TypeError\<close>, line 179\<close>
  | SchemaNameMismatch "string set"      \<comment> \<open>\<open>ValueError\<close>, line 185\<close>
  | UnknownPathType                      \<comment> \<open>\<open>ValueError\<close>, line 251\<close>
  | ConfigFileNotFound path              \<comment> \<open>\<open>FileNotFoundError\<close>, line 254\<close>
  | NotASectionClass string              \<comment> \<open>\<open>AssertionError\<close>, lines 258 and 283\<close>
  | IssubclassNotAClass                  \<comment> \<open>\<open>TypeError\<close> of \<open>issubclass\<close> on a \<open>Union\<close>, line 177\<close>
  | NoConfigPathAvailable                \<comment> \<open>\<open>ValueError\<close>, line 279\<close>
  | InvalidLiteral string                \<comment> \<open>\<open>ValueError\<close> of \<open>int(s)\<close>\<close>
  | NotConvertible                       \<comment> \<open>\<open>TypeError\<close> of \<open>int(None)\<close>\<close>
  | CannotInstantiate                    \<comment> \<open>\<open>TypeError\<close> of calling a \<open>Union\<close>\<close>
  | MissingArguments "string list"       \<comment> \<open>\<open>TypeError\<close> of a dataclass \<open>__init__\<close>\<close>
  | UnexpectedKeyword string             \<comment> \<open>\<open>TypeError\<close> of a dataclass \<open>__init__\<close>\<close>
  | FileError path                       \<comment> \<open>\<open>OSError\<close> of \<open>open\<close> or of writing\<close>
  | ParserIsNone                         \<comment> \<open>the error of using \<open>None\<close> as a parser\<close>
  | NoSectionError secname               \<comment> \<open>\<open>configparser.NoSectionError\<close>\<close>
  | NoOptionError string                 \<comment> \<open>\<open>configparser.NoOptionError\<close>\<close>
  | DuplicateSectionError string         \<comment> \<open>\<open>configparser.DuplicateSectionError\<close>\<close>
  | DuplicateOptionError string string   \<comment> \<open>\<open>configparser.DuplicateOptionError\<close>\<close>
  | InvalidInterpolation string          \<comment> \<open>\<open>ValueError\<close> of setting a value with a stray \<open>%\<close>\<close>
  | InterpolationSyntaxError             \<comment> \<open>\<open>configparser.InterpolationSyntaxError\<close>\<close>
  | InterpolationMissingOptionError string
                                         \<comment> \<open>\<open>configparser.InterpolationMissingOptionError\<close>\<close>
  | InterpolationDepthError              \<comment> \<open>\<open>configparser.InterpolationDepthError\<close>\<close>
  | OptionKeyError string                \<comment> \<open>\<open>KeyError\<close> of \<open>section[key]\<close>\<close>

subsection \<open>The builtins \<open>str\<close>, \<open>int\<close>, \<open>bool\<close> and \<open>==\<close>\<close>

definition digit_char :: "nat \<Rightarrow> char" where
  "digit_char d = char_of (48 + d)"

definition is_digit :: "char \<Rightarrow> bool" where
  "is_digit c = (48 \<le> (of_char c :: nat) \<and> (of_char c :: nat) \<le> 57)"

definition digit_val :: "char \<Rightarrow> nat" where
  "digit_val c = of_char c - 48"

fun str_of_nat :: "nat \<Rightarrow> string" where
  "str_of_nat n =
     (if n < 10 then [digit_char n] else str_of_nat (n div 10) @ [digit_char (n mod 10)])"

declare str_of_nat.simps [simp del]

definition str_of_int :: "int \<Rightarrow> string" where
  "str_of_int i = (if i < 0 then CHR ''-'' # str_of_nat (nat (- i)) else str_of_nat (nat i))"

text \<open>\<open>str(v)\<close>.\<close>

fun py_str :: "pyval \<Rightarrow> string" where
  "py_str None = ''None''"
| "py_str (Some (VBool b)) = (if b then ''True'' else ''False'')"
| "py_str (Some (VInt i)) = str_of_int i"
| "py_str (Some (VStr s)) = s"

text \<open>
  \<open>int(s)\<close> on an ASCII string: surrounding white space (the characters 9 to 13 and the
  space) is dropped, one sign is allowed, and the rest is decimal digits, where single
  underscores may stand between digits.
\<close>

definition is_space :: "char \<Rightarrow> bool" where
  "is_space c = (let k = (of_char c :: nat) in (9 \<le> k \<and> k \<le> 13) \<or> k = 32)"

definition strip :: "string \<Rightarrow> string" where
  "strip s = rev (dropWhile is_space (rev (dropWhile is_space s)))"

fun digits_val :: "nat \<Rightarrow> string \<Rightarrow> nat option" where
  "digits_val acc [] = Some acc"
| "digits_val acc (c # cs) =
     (if is_digit c then digits_val (10 * acc + digit_val c) cs
      else if c = CHR ''_'' then
        (case cs of
           [] \<Rightarrow> None
         | d # ds \<Rightarrow> if is_digit d then digits_val acc cs else None)
      else None)"

definition nat_of_str :: "string \<Rightarrow> nat option" where
  "nat_of_str s =
     (case s of [] \<Rightarrow> None | c # cs \<Rightarrow> if is_digit c then digits_val 0 s else None)"

definition int_of_str :: "string \<Rightarrow> int option" where
  "int_of_str s =
     (case strip s of
        [] \<Rightarrow> None
      | c # cs \<Rightarrow>
          if c = CHR ''-'' then map_option (\<lambda>n. - int n) (nat_of_str cs)
          else if c = CHR ''+'' then map_option int (nat_of_str cs)
          else map_option int (nat_of_str (c # cs)))"

fun py_int :: "pyval \<Rightarrow> pyerr + pyval" where
  "py_int None = Inl NotConvertible"
| "py_int (Some (VBool b)) = Inr (Some (VInt (if b then 1 else 0)))"
| "py_int (Some (VInt i)) = Inr (Some (VInt i))"
| "py_int (Some (VStr s)) =
     (case int_of_str s of None \<Rightarrow> Inl (InvalidLiteral s) | Some i \<Rightarrow> Inr (Some (VInt i)))"

text \<open>\<open>s.lower()\<close> on an ASCII string.\<close>

definition lower_char :: "char \<Rightarrow> char" where
  "lower_char c =
     (let k = (of_char c :: nat) in if 65 \<le> k \<and> k \<le> 90 then char_of (k + 32) else c)"

definition py_lower :: "string \<Rightarrow> string" where
  "py_lower s = map lower_char s"

text \<open>\<open>bool(v)\<close>: the truth value of an object.\<close>

fun py_bool :: "pyval \<Rightarrow> bool" where
  "py_bool None = False"
| "py_bool (Some (VBool b)) = b"
| "py_bool (Some (VInt i)) = (i \<noteq> 0)"
| "py_bool (Some (VStr s)) = (s \<noteq> [])"

text \<open>\<open>a == b\<close>: a \<open>bool\<close> is the integer 0 or 1, and compares as such.\<close>

fun py_eq :: "pyval \<Rightarrow> pyval \<Rightarrow> bool" where
  "py_eq (Some (VBool a)) (Some (VInt j)) = ((if a then 1 else 0) = j)"
| "py_eq (Some (VInt i)) (Some (VBool b)) = (i = (if b then 1 else 0))"
| "py_eq a b = (a = b)"

text \<open>\<open>v in (t1, ..., tn)\<close>.\<close>

definition py_in :: "pyval \<Rightarrow> pyval list \<Rightarrow> bool" where
  "py_in v ts = list_ex (py_eq v) ts"

text \<open>
  \<open>tp(v)\<close>: a declared type called as a constructor on one argument. A \<open>Union\<close> cannot be
  instantiated.
\<close>

fun call_type :: "scalar_class pytype \<Rightarrow> pyval \<Rightarrow> pyerr + pyval" where
  "call_type (TClass PyBool) v = Inr (Some (VBool (py_bool v)))"
| "call_type (TClass PyInt) v = py_int v"
| "call_type (TClass PyStr) v = Inr (Some (VStr (py_str v)))"
| "call_type (TOptional t) v = Inl CannotInstantiate"

section \<open>Dataclasses and the check of required fields\<close>

text \<open>
  A dataclass field: its name, its declared type and its default (\<open>None\<close> when the
  declaration gives none; \<open>Some None\<close> is the default \<open>= None\<close>). The attributes of an
  instance are the pairs of \<open>__dict__\<close>, in the order of the fields.
\<close>

record ('c, 'v) field =
  name :: string
  ftype :: "'c pytype"
  fdefault :: "'v option option"

type_synonym 'v attrs = "(string \<times> 'v option) list"

text \<open>
  \<open>is_optional_type(tp)\<close>: the origin of \<open>tp\<close> is \<open>Union\<close> and \<open>NoneType\<close> is among its
  arguments.
\<close>

fun is_optional_type :: "'c pytype \<Rightarrow> bool" where
  "is_optional_type (TOptional t) = True"
| "is_optional_type (TClass c) = False"

text \<open>\<open>getattr(self, n, None)\<close>.\<close>

definition getattr_or_none :: "'v attrs \<Rightarrow> string \<Rightarrow> 'v option" where
  "getattr_or_none a n = (case map_of a n of None \<Rightarrow> None | Some v \<Rightarrow> v)"

text \<open>
  \<open>CheckNoneNonOptionalFieldsMixin.__post_init__\<close>: the loop over the fields raises at
  the first field that is \<open>None\<close> and not optional.
\<close>

fun check_none_fields :: "('c, 'v) field list \<Rightarrow> 'v attrs \<Rightarrow> pyerr + unit" where
  "check_none_fields [] a = Inr ()"
| "check_none_fields (f # fs) a =
     (if getattr_or_none a (name f) = None \<and> \<not> is_optional_type (ftype f)
      then Inl (MissingRequiredField (name f))
      else check_none_fields fs a)"

text \<open>
  The \<open>__init__\<close> that \<open>@dataclass\<close> generates, called with keyword arguments only: a
  keyword that is no field is refused, then the fields with neither an argument nor a
  default are reported together, and otherwise every field is bound in order.
\<close>

definition bind_field :: "'v attrs \<Rightarrow> ('c, 'v) field \<Rightarrow> string \<times> 'v option" where
  "bind_field kw f =
     (name f,
      case map_of kw (name f) of
        Some v \<Rightarrow> v
      | None \<Rightarrow> (case fdefault f of Some d \<Rightarrow> d | None \<Rightarrow> None))"

definition dataclass_init :: "('c, 'v) field list \<Rightarrow> 'v attrs \<Rightarrow> pyerr + 'v attrs" where
  "dataclass_init fs kw =
     (case filter (\<lambda>k. k \<notin> set (map name fs)) (map fst kw) of
        k # ks \<Rightarrow> Inl (UnexpectedKeyword k)
      | [] \<Rightarrow>
          (case filter (\<lambda>f. map_of kw (name f) = None \<and> fdefault f = None) fs of
             [] \<Rightarrow> Inr (map (bind_field kw) fs)
           | m # ms \<Rightarrow> Inl (MissingArguments (map name (m # ms)))))"

section \<open>Section classes\<close>

text \<open>
  A subclass of \<open>ConfigSectionBase\<close>: the attribute \<open>section_name\<close> in the namespace
  of the class itself (\<open>None\<close> when neither its body nor \<open>config_dataclass\<close> has put one
  there), the classes of the store that follow the class in its method resolution order,
  and its dataclass fields (with the inherited ones). Classes are objects shared by every
  annotation that names them, and \<open>config_dataclass\<close> assigns to their
  \<open>section_name\<close>: the classes live in a store, and an annotation holds the class's
  number.
\<close>

record section_class =
  own_section_name :: "secname option"
  mro :: "nat list"
  sfields :: "(scalar_class, scalar) field list"

type_synonym class_store = "nat \<Rightarrow> section_class"

text \<open>
  \<open>cls.section_name\<close>: the attribute is looked up in the class and then in the classes
  of its method resolution order, and the first that has it gives the value.
  \<open>ConfigSectionAutoNamed\<close>, whose \<open>section_name\<close> is \<open>AUTO_NAME\<close>, can be a class of the
  store like any other; where it is the last class with a name in the order and no field
  is annotated with it, it can be left out, and a lookup that finds no name in the store
  is the lookup that ends at it. (A class that derives from \<open>ConfigSectionBase\<close> only has
  a name of its own or of a base: \<open>__init_subclass__\<close> refuses it otherwise.)
\<close>

fun first_own_name :: "class_store \<Rightarrow> nat list \<Rightarrow> secname" where
  "first_own_name st [] = AUTO_NAME"
| "first_own_name st (m # ms) =
     (case own_section_name (st m) of Some s \<Rightarrow> s | None \<Rightarrow> first_own_name st ms)"

definition section_name :: "class_store \<Rightarrow> nat \<Rightarrow> secname" where
  "section_name st n = first_own_name st (n # mro (st n))"

record section_instance =
  inst_class :: nat
  inst_attrs :: "scalar attrs"

text \<open>\<open>ConfigSectionBase.__post_init__\<close>: the assertion, then the mixin's check.\<close>

definition section_post_init :: "class_store \<Rightarrow> nat \<Rightarrow> scalar attrs \<Rightarrow> pyerr + unit" where
  "section_post_init st n a =
     (if section_name st n = AUTO_NAME then Inl UninitializedSectionName
      else check_none_fields (sfields (st n)) a)"

text \<open>\<open>cls(**kw)\<close> for a section class \<open>cls\<close>.\<close>

definition new_section :: "class_store \<Rightarrow> nat \<Rightarrow> scalar attrs \<Rightarrow> pyerr + section_instance" where
  "new_section st n kw =
     (case dataclass_init (sfields (st n)) kw of
        Inl e \<Rightarrow> Inl e
      | Inr a \<Rightarrow>
          (case section_post_init st n a of
             Inl e \<Rightarrow> Inl e
           | Inr u \<Rightarrow> Inr \<lparr>inst_class = n, inst_attrs = a\<rparr>))"

text \<open>
  \<open>convert_field_types_from_strings\<close>, called on a \<open>dict\<close>. Lines 120 to 123, the
  conversion of one value:
\<close>

definition convert_value :: "scalar_class pytype \<Rightarrow> pyval \<Rightarrow> pyerr + pyval" where
  "convert_value tp raw =
     (if tp = TClass PyBool
      then Inr (Some (VBool (py_in raw
             [Some (VStr ''1''), Some (VInt 1), Some (VStr ''true''), Some (VStr ''True''),
              Some (VStr ''TRUE'')])))
      else call_type tp raw)"

text \<open>Lines 116 to 124, the loop over the fields:\<close>

fun convert_fields ::
  "(scalar_class, scalar) field list \<Rightarrow> scalar attrs \<Rightarrow> pyerr + scalar attrs" where
  "convert_fields [] src = Inr []"
| "convert_fields (f # fs) src =
     (case map_of src (name f) of
        None \<Rightarrow> convert_fields fs src
      | Some raw \<Rightarrow>
          (case convert_value (ftype f) raw of
             Inl e \<Rightarrow> Inl e
           | Inr v \<Rightarrow>
               (case convert_fields fs src of
                  Inl e \<Rightarrow> Inl e
                | Inr rest \<Rightarrow> Inr ((name f, v) # rest))))"

text \<open>Lines 111 to 125, the whole method:\<close>

definition convert_field_types_from_strings ::
  "(scalar_class, scalar) field list \<Rightarrow> scalar attrs \<Rightarrow> pyerr + scalar attrs" where
  "convert_field_types_from_strings fs source_data =
     (let cls_field_nameset = set (map name fs);
          unknown_source_nameset = set (map fst source_data) - cls_field_nameset
      in if unknown_source_nameset \<noteq> {} then Inl (UnknownFieldName unknown_source_nameset)
         else convert_fields fs source_data)"

text \<open>
  The same method on any \<open>Mapping\<close>, of which it uses \<open>keys()\<close>, \<open>in\<close> and \<open>[]\<close>; each
  of them may be a method that raises. For the view of a \<open>dict\<close> it is the function
  above.
\<close>

record mapping_view =
  view_keys :: "pyerr + string list"
  view_contains :: "string \<Rightarrow> bool"
  view_getitem :: "string \<Rightarrow> pyerr + pyval"

definition dict_view :: "scalar attrs \<Rightarrow> mapping_view" where
  "dict_view src =
     \<lparr>view_keys = Inr (map fst src),
      view_contains = (\<lambda>k. map_of src k \<noteq> None),
      view_getitem = (\<lambda>k. case map_of src k of None \<Rightarrow> Inl (OptionKeyError k) | Some v \<Rightarrow> Inr v)\<rparr>"

fun convert_fields_of_mapping ::
  "(scalar_class, scalar) field list \<Rightarrow> mapping_view \<Rightarrow> pyerr + scalar attrs" where
  "convert_fields_of_mapping [] src = Inr []"
| "convert_fields_of_mapping (f # fs) src =
     (if view_contains src (name f)
      then (case view_getitem src (name f) of
              Inl e \<Rightarrow> Inl e
            | Inr raw \<Rightarrow>
                (case convert_value (ftype f) raw of
                   Inl e \<Rightarrow> Inl e
                 | Inr v \<Rightarrow>
                     (case convert_fields_of_mapping fs src of
                        Inl e \<Rightarrow> Inl e
                      | Inr rest \<Rightarrow> Inr ((name f, v) # rest))))
      else convert_fields_of_mapping fs src)"

definition convert_field_types_from_mapping ::
  "(scalar_class, scalar) field list \<Rightarrow> mapping_view \<Rightarrow> pyerr + scalar attrs" where
  "convert_field_types_from_mapping fs source_data =
     (case view_keys source_data of
        Inl e \<Rightarrow> Inl e
      | Inr ks \<Rightarrow>
          (let cls_field_nameset = set (map name fs);
               unknown_source_nameset = set ks - cls_field_nameset
           in if unknown_source_nameset \<noteq> {} then Inl (UnknownFieldName unknown_source_nameset)
              else convert_fields_of_mapping fs source_data))"

text \<open>
  \<open>dataclasses.asdict(self)\<close>: the attribute of every field, in the order of the fields.
  (An instance made by \<open>__init__\<close> has them all.)
\<close>

definition dataclass_asdict :: "('c, 'v) field list \<Rightarrow> 'v attrs \<Rightarrow> 'v attrs" where
  "dataclass_asdict fs a = map (\<lambda>f. (name f, getattr_or_none a (name f))) fs"

section \<open>The parser\<close>

text \<open>
  The parser is a \<open>configparser.ConfigParser\<close> of Python's standard library, as
  \<open>_config_parser_factory\<close> makes it without arguments: options are lower-cased, values
  are strings, and \<open>%\<close> in a value is the sign of interpolation. Its state is the
  options of the section \<open>DEFAULT\<close> and, in order, the other sections with their options.
\<close>

record parser =
  p_defaults :: "(string \<times> string) list"
  p_sections :: "(string \<times> (string \<times> string) list) list"

definition new_parser :: parser where
  "new_parser = \<lparr>p_defaults = [], p_sections = []\<rparr>"

definition default_section :: string where
  "default_section = ''DEFAULT''"

definition optionxform :: "string \<Rightarrow> string" where
  "optionxform optionstr = py_lower optionstr"

subsection \<open>Interpolation\<close>

text \<open>
  The pattern \<open>%\(([^)]+)\)s\<close> at the start of a string: \<open>%(\<close>, a name of one or more
  characters other than \<open>)\<close>, and \<open>)s\<close>. The result is the name; the match is four
  characters longer.
\<close>

definition match_ref :: "string \<Rightarrow> string option" where
  "match_ref s =
     (case s of
        c1 # c2 # t \<Rightarrow>
          if c1 = CHR ''%'' \<and> c2 = CHR ''(''
          then (let nm = takeWhile (\<lambda>c. c \<noteq> CHR '')'') t
                in case dropWhile (\<lambda>c. c \<noteq> CHR '')'') t of
                     c3 # c4 # r \<Rightarrow> if nm \<noteq> [] \<and> c4 = CHR ''s'' then Some nm else None
                   | _ \<Rightarrow> None)
          else None
      | _ \<Rightarrow> None)"

text \<open>
  \<open>BasicInterpolation.before_set\<close>: after every \<open>%%\<close> and then every reference
  \<open>%(name)s\<close> is taken out, no \<open>%\<close> may be left. \<open>remove_refs k\<close> first passes over
  \<open>k\<close> characters, those of a match it has found.
\<close>

fun remove_escaped :: "string \<Rightarrow> string" where
  "remove_escaped (a # b # r) =
     (if a = CHR ''%'' \<and> b = CHR ''%'' then remove_escaped r else a # remove_escaped (b # r))"
| "remove_escaped s = s"

fun remove_refs :: "nat \<Rightarrow> string \<Rightarrow> string" where
  "remove_refs k [] = []"
| "remove_refs (Suc k) (c # r) = remove_refs k r"
| "remove_refs 0 (c # r) =
     (case match_ref (c # r) of
        Some nm \<Rightarrow> remove_refs (length nm + 3) r
      | None \<Rightarrow> c # remove_refs 0 r)"

definition valid_interpolation :: "string \<Rightarrow> bool" where
  "valid_interpolation v = (CHR ''%'' \<notin> set (remove_refs 0 (remove_escaped v)))"

text \<open>
  \<open>BasicInterpolation._interpolate_some\<close>, with the options \<open>m\<close> that references are
  looked up in: \<open>%%\<close> becomes \<open>%\<close>, and \<open>%(name)s\<close> becomes the value of \<open>name\<close>,
  interpolated in turn when it has a \<open>%\<close>. The first number is how many levels of
  references are left of the ten allowed, the second how many characters to pass over.
\<close>

fun interpolate_some :: "(string \<Rightarrow> string option) \<Rightarrow> nat \<Rightarrow> nat \<Rightarrow> string \<Rightarrow> pyerr + string" where
  "interpolate_some m 0 k s = Inl InterpolationDepthError"
| "interpolate_some m (Suc l) k [] = Inr []"
| "interpolate_some m (Suc l) (Suc k) (c # r) = interpolate_some m (Suc l) k r"
| "interpolate_some m (Suc l) 0 (c # r) =
     (if c \<noteq> CHR ''%''
      then (case interpolate_some m (Suc l) 0 r of Inl e \<Rightarrow> Inl e | Inr b \<Rightarrow> Inr (c # b))
      else (case r of
              [] \<Rightarrow> Inl InterpolationSyntaxError
            | c2 # r2 \<Rightarrow>
                if c2 = CHR ''%''
                then (case interpolate_some m (Suc l) 1 r of
                        Inl e \<Rightarrow> Inl e
                      | Inr b \<Rightarrow> Inr (CHR ''%'' # b))
                else if c2 = CHR ''(''
                then (case match_ref (c # r) of
                        None \<Rightarrow> Inl InterpolationSyntaxError
                      | Some nm \<Rightarrow>
                          (case m (optionxform nm) of
                             None \<Rightarrow> Inl (InterpolationMissingOptionError (optionxform nm))
                           | Some v \<Rightarrow>
                               (case (if CHR ''%'' \<in> set v then interpolate_some m l 0 v
                                      else Inr v) of
                                  Inl e \<Rightarrow> Inl e
                                | Inr a \<Rightarrow>
                                    (case interpolate_some m (Suc l) (length nm + 3) r of
                                       Inl e \<Rightarrow> Inl e
                                     | Inr b \<Rightarrow> Inr (a @ b)))))
                else Inl InterpolationSyntaxError))"

subsection \<open>Options\<close>

text \<open>
  The name of a section is the string a caller passes; \<open>to_config_section\<close> passes the
  \<open>section_name\<close> of a class, which can be the object \<open>AUTO_NAME\<close>: no section has it.
\<close>

definition section_dict :: "parser \<Rightarrow> secname \<Rightarrow> (string \<times> string) list option" where
  "section_dict p section =
     (case section of AUTO_NAME \<Rightarrow> None | Fixed s \<Rightarrow> map_of (p_sections p) s)"

text \<open>
  \<open>ConfigParser.set\<close>: the value is validated, an empty name and \<open>DEFAULT\<close> stand for
  the default section, and any other section must exist.
\<close>

definition parser_set :: "parser \<Rightarrow> secname \<Rightarrow> string \<Rightarrow> string \<Rightarrow> pyerr + parser" where
  "parser_set p section option value =
     (if value \<noteq> [] \<and> \<not> valid_interpolation value then Inl (InvalidInterpolation value)
      else (case section of
              AUTO_NAME \<Rightarrow> Inl (NoSectionError section)
            | Fixed s \<Rightarrow>
                if s = [] \<or> s = default_section
                then Inr (p\<lparr>p_defaults := AList.update (optionxform option) value (p_defaults p)\<rparr>)
                else (case map_of (p_sections p) s of
                        None \<Rightarrow> Inl (NoSectionError section)
                      | Some d \<Rightarrow>
                          Inr (p\<lparr>p_sections :=
                                 AList.update s (AList.update (optionxform option) value d)
                                   (p_sections p)\<rparr>))))"

text \<open>\<open>has_option\<close>.\<close>

definition has_option :: "parser \<Rightarrow> secname \<Rightarrow> string \<Rightarrow> bool" where
  "has_option p section option =
     (case section of
        AUTO_NAME \<Rightarrow> False
      | Fixed s \<Rightarrow>
          if s = [] \<or> s = default_section
          then map_of (p_defaults p) (optionxform option) \<noteq> None
          else (case map_of (p_sections p) s of
                  None \<Rightarrow> False
                | Some d \<Rightarrow>
                    map_of d (optionxform option) \<noteq> None
                    \<or> map_of (p_defaults p) (optionxform option) \<noteq> None))"

text \<open>\<open>options\<close>: the options of the section, then the default options it lacks.\<close>

definition parser_options :: "parser \<Rightarrow> secname \<Rightarrow> pyerr + string list" where
  "parser_options p section =
     (case section_dict p section of
        None \<Rightarrow> Inl (NoSectionError section)
      | Some d \<Rightarrow>
          Inr (map fst d @ filter (\<lambda>k. k \<notin> set (map fst d)) (map fst (p_defaults p))))"

text \<open>
  \<open>get\<close>, without \<open>raw\<close>, \<open>vars\<close> or \<open>fallback\<close>: the option is looked up in the section
  and then in the default section, and its value is interpolated.
\<close>

definition unify_values :: "parser \<Rightarrow> secname \<Rightarrow> pyerr + (string \<Rightarrow> string option)" where
  "unify_values p section =
     (case (case section_dict p section of
              Some d \<Rightarrow> Inr d
            | None \<Rightarrow>
                if section \<noteq> Fixed default_section then Inl (NoSectionError section)
                else Inr []) of
        Inl e \<Rightarrow> Inl e
      | Inr sectiondict \<Rightarrow>
          Inr (\<lambda>k. case map_of sectiondict k of
                      Some v \<Rightarrow> Some v
                    | None \<Rightarrow> map_of (p_defaults p) k))"

definition parser_get :: "parser \<Rightarrow> secname \<Rightarrow> string \<Rightarrow> pyerr + string" where
  "parser_get p section option =
     (case unify_values p section of
        Inl e \<Rightarrow> Inl e
      | Inr d \<Rightarrow>
          (case d (optionxform option) of
             None \<Rightarrow> Inl (NoOptionError (optionxform option))
           | Some value \<Rightarrow> interpolate_some d 10 0 value))"

subsection \<open>Section proxies\<close>

text \<open>
  A \<open>SectionProxy\<close> is a view of the section of its name in its parser: it holds no
  options of its own, and is given here by the parser's state and the name. These are its
  \<open>keys()\<close>, \<open>[key]\<close> and \<open>[key] = value\<close>; its \<open>in\<close> is \<open>has_option\<close>.
\<close>

definition proxy_options :: "parser \<Rightarrow> secname \<Rightarrow> pyerr + string list" where
  "proxy_options p nm =
     (if nm \<noteq> Fixed default_section then parser_options p nm
      else Inr (map fst (p_defaults p)))"

definition proxy_getitem :: "parser \<Rightarrow> secname \<Rightarrow> string \<Rightarrow> pyerr + string" where
  "proxy_getitem p nm key =
     (if \<not> has_option p nm key then Inl (OptionKeyError key) else parser_get p nm key)"

definition proxy_setitem :: "parser \<Rightarrow> secname \<Rightarrow> string \<Rightarrow> string \<Rightarrow> pyerr + parser" where
  "proxy_setitem p nm key value = parser_set p nm key value"

definition proxy_view :: "parser \<Rightarrow> secname \<Rightarrow> mapping_view" where
  "proxy_view p nm =
     \<lparr>view_keys = proxy_options p nm,
      view_contains = has_option p nm,
      view_getitem =
        (\<lambda>k. case proxy_getitem p nm k of Inl e \<Rightarrow> Inl e | Inr s \<Rightarrow> Inr (Some (VStr s)))\<rparr>"

subsection \<open>The parser as a mapping of sections\<close>

text \<open>\<open>key in parser\<close>; \<open>parser[key]\<close> is then the proxy of the name \<open>key\<close>.\<close>

definition parser_contains :: "parser \<Rightarrow> string \<Rightarrow> bool" where
  "parser_contains p key = (key = default_section \<or> map_of (p_sections p) key \<noteq> None)"

text \<open>
  \<open>parser[key] = value\<close> for a proxy \<open>value\<close> of this parser that is not the parser's own
  proxy object of \<open>key\<close>: the section \<open>key\<close> is emptied, made if there is none, and then
  \<open>read_dict\<close> reads the items of \<open>value\<close> into it, one by one: each is got from the
  view as the parser then is, and set. An exception leaves the parser as it is at that
  point.
\<close>

definition add_section_quietly :: "parser \<Rightarrow> string \<Rightarrow> parser" where
  "add_section_quietly p section =
     (if section = default_section \<or> map_of (p_sections p) section \<noteq> None then p
      else p\<lparr>p_sections := p_sections p @ [(section, [])]\<rparr>)"

fun read_items ::
  "parser \<Rightarrow> string \<Rightarrow> secname \<Rightarrow> string list \<Rightarrow> string list \<Rightarrow> parser \<times> pyerr option" where
  "read_items p section nm [] added = (p, None)"
| "read_items p section nm (k # ks) added =
     (case proxy_getitem p nm k of
        Inl e \<Rightarrow> (p, Some e)
      | Inr value \<Rightarrow>
          if optionxform k \<in> set added
          then (p, Some (DuplicateOptionError section (optionxform k)))
          else (case parser_set p (Fixed section) (optionxform k) value of
                  Inl e \<Rightarrow> (p, Some e)
                | Inr p' \<Rightarrow> read_items p' section nm ks (optionxform k # added)))"

definition parser_setitem :: "parser \<Rightarrow> string \<Rightarrow> secname \<Rightarrow> parser \<times> pyerr option" where
  "parser_setitem p key nm =
     (let p1 = (if key = default_section then p\<lparr>p_defaults := []\<rparr>
                else if map_of (p_sections p) key \<noteq> None
                then p\<lparr>p_sections := AList.update key [] (p_sections p)\<rparr>
                else p);
          p2 = add_section_quietly p1 key
      in case proxy_options p2 nm of
           Inl e \<Rightarrow> (p2, Some e)
         | Inr ks \<Rightarrow> read_items p2 key nm ks [])"

subsection \<open>Files\<close>

text \<open>
  The grammar of INI files is not modelled: a file is given by the section headers and
  the options under each, in order, as strings. \<open>parser.read\<close> merges them into the
  state; it refuses a section or an option that the same file has twice. \<open>parser.write\<close>
  writes the default section, if it has options, and the sections.
\<close>

type_synonym ini_file = "(string \<times> (string \<times> string) list) list"

fun read_file_options ::
  "string \<Rightarrow> (string \<times> string) list \<Rightarrow> (string \<times> string) list \<Rightarrow> (string \<times> string) list
     \<Rightarrow> pyerr + (string \<times> string) list \<times> (string \<times> string) list" where
  "read_file_options sectname [] cursect added = Inr (cursect, added)"
| "read_file_options sectname ((optname, optval) # rest) cursect added =
     (if (sectname, optionxform optname) \<in> set added
      then Inl (DuplicateOptionError sectname (optionxform optname))
      else read_file_options sectname rest (AList.update (optionxform optname) optval cursect)
             ((sectname, optionxform optname) # added))"

fun read_file_sections ::
  "ini_file \<Rightarrow> parser \<Rightarrow> string list \<Rightarrow> (string \<times> string) list \<Rightarrow> pyerr + parser" where
  "read_file_sections [] p secs opts = Inr p"
| "read_file_sections ((sectname, options) # rest) p secs opts =
     (case map_of (p_sections p) sectname of
        Some d \<Rightarrow>
          if sectname \<in> set secs then Inl (DuplicateSectionError sectname)
          else (case read_file_options sectname options d opts of
                  Inl e \<Rightarrow> Inl e
                | Inr (d', opts') \<Rightarrow>
                    read_file_sections rest
                      (p\<lparr>p_sections := AList.update sectname d' (p_sections p)\<rparr>)
                      (sectname # secs) opts')
      | None \<Rightarrow>
          if sectname = default_section
          then (case read_file_options sectname options (p_defaults p) opts of
                  Inl e \<Rightarrow> Inl e
                | Inr (d', opts') \<Rightarrow> read_file_sections rest (p\<lparr>p_defaults := d'\<rparr>) secs opts')
          else (case read_file_options sectname options [] opts of
                  Inl e \<Rightarrow> Inl e
                | Inr (d', opts') \<Rightarrow>
                    read_file_sections rest (p\<lparr>p_sections := p_sections p @ [(sectname, d')]\<rparr>)
                      (sectname # secs) opts'))"

definition parser_read :: "ini_file \<Rightarrow> parser \<Rightarrow> pyerr + parser" where
  "parser_read content p = read_file_sections content p [] []"

definition parser_write :: "parser \<Rightarrow> ini_file" where
  "parser_write p =
     (if p_defaults p = [] then [] else [(default_section, p_defaults p)]) @ p_sections p"

text \<open>
  The files: the content of every existing path, and for every path whether opening it
  for writing, or writing to it once open, fails.
\<close>

datatype io_fault = OpenFails | WriteFails

record world =
  files :: "(path \<times> ini_file) list"
  faults :: "path \<Rightarrow> io_fault option"

section \<open>Sections and the parser\<close>

text \<open>\<open>from_config_section\<close>, for the proxy of the name \<open>nm\<close> in the parser \<open>p\<close>.\<close>

definition from_config_section ::
  "class_store \<Rightarrow> nat \<Rightarrow> parser \<Rightarrow> secname \<Rightarrow> pyerr + section_instance" where
  "from_config_section st n p nm =
     (if section_name st n \<noteq> nm
      then Inl (SectionNameMismatch (section_name st n) nm)
      else (case convert_field_types_from_mapping (sfields (st n)) (proxy_view p nm) of
              Inl e \<Rightarrow> Inl e
            | Inr converted_fields \<Rightarrow> new_section st n converted_fields))"

text \<open>
  \<open>to_config_section\<close>: a proxy of the class's section name is made, and every field is
  assigned to it as \<open>str(value)\<close>, which sets the option in the parser. The result is
  the parser, changed so far as the loop came, and the name of the proxy or the exception.
\<close>

fun write_options ::
  "parser \<Rightarrow> secname \<Rightarrow> scalar attrs \<Rightarrow> parser \<times> pyerr option" where
  "write_options p nm [] = (p, None)"
| "write_options p nm ((k, v) # data) =
     (case proxy_setitem p nm k (py_str v) of
        Inl e \<Rightarrow> (p, Some e)
      | Inr p' \<Rightarrow> write_options p' nm data)"

definition to_config_section ::
  "class_store \<Rightarrow> section_instance \<Rightarrow> parser \<Rightarrow> parser \<times> (pyerr + secname)" where
  "to_config_section st self p =
     (let nm = section_name st (inst_class self);
          data = dataclass_asdict (sfields (st (inst_class self))) (inst_attrs self)
      in case write_options p nm data of
           (p', Some e) \<Rightarrow> (p', Inl e)
         | (p', None) \<Rightarrow> (p', Inr nm))"

section \<open>Config classes\<close>

text \<open>
  The classes that annotate the fields of a config class: a section class of the store,
  or some class that is no subclass of \<open>ConfigSectionBase\<close>.
\<close>

datatype cfg_class = SectionClass nat | OtherClass

record config_class =
  cfields :: "(cfg_class, section_instance) field list"

text \<open>\<open>get_section_fields\<close>: the dataclass fields (the two \<open>InitVar\<close>s are no fields).\<close>

definition get_section_fields ::
  "config_class \<Rightarrow> (cfg_class, section_instance) field list" where
  "get_section_fields cls = cfields cls"

text \<open>
  \<open>issubclass(tp, ConfigSectionBase)\<close> is true of \<open>TClass (SectionClass n)\<close> only, and
  raises on a \<open>Union\<close>. \<open>section_class_of\<close> gives the class that \<open>tp.section_name\<close>
  reads and writes.
\<close>

fun section_class_of :: "cfg_class pytype \<Rightarrow> nat option" where
  "section_class_of (TClass (SectionClass n)) = Some n"
| "section_class_of (TClass OtherClass) = None"
| "section_class_of (TOptional t) = None"

text \<open>
  Lines 188 to 190 of \<open>config_dataclass\<close>, the loop that stamps the names: the
  assignment makes the name an attribute of the field's class itself.
\<close>

fun stamp_names ::
  "(cfg_class, section_instance) field list \<Rightarrow> class_store \<Rightarrow> class_store" where
  "stamp_names [] st = st"
| "stamp_names (f # fs) st =
     stamp_names fs
       (case section_class_of (ftype f) of
          None \<Rightarrow> st
        | Some n \<Rightarrow>
            if section_name st n = AUTO_NAME
            then st(n := (st n)\<lparr>own_section_name := Some (Fixed (name f))\<rparr>)
            else st)"




text \<open>
  A config instance: the section of every field, and the two attributes that
  \<open>__post_init__\<close> sets.
\<close>

record config_instance =
  cfg_attrs :: "section_instance attrs"
  priv_config_parser :: "parser option"
  priv_config_path :: "path option"

text \<open>
  \<open>ConfigBase.__post_init__(config_parser, config_path)\<close>: line 230 stores \<open>None\<close> as
  \<open>_config_path\<close>, whatever \<open>config_path\<close> is.
\<close>

definition config_post_init ::
  "config_class \<Rightarrow> section_instance attrs \<Rightarrow> parser option \<Rightarrow> path option
     \<Rightarrow> pyerr + config_instance" where
  "config_post_init cls a config_parser config_path =
     (case check_none_fields (cfields cls) a of
        Inl e \<Rightarrow> Inl e
      | Inr u \<Rightarrow>
          Inr \<lparr>cfg_attrs = a, priv_config_parser = config_parser, priv_config_path = None\<rparr>)"

text \<open>\<open>cls(**kw, config_parser=..., config_path=...)\<close> for a config class \<open>cls\<close>.\<close>

definition new_config ::
  "config_class \<Rightarrow> section_instance attrs \<Rightarrow> parser option \<Rightarrow> path option
     \<Rightarrow> pyerr + config_instance" where
  "new_config cls kw config_parser config_path =
     (case dataclass_init (cfields cls) kw of
        Inl e \<Rightarrow> Inl e
      | Inr a \<Rightarrow> config_post_init cls a config_parser config_path)"

subsection \<open>\<open>load\<close>\<close>

text \<open>The argument \<open>path\<close> of \<open>load\<close>.\<close>

datatype path_arg = NoPath | OnePath path | PathSequence "path list" | OtherObject

text \<open>Lines 252 to 255, the loop over the paths:\<close>

fun read_paths :: "world \<Rightarrow> path list \<Rightarrow> parser \<Rightarrow> pyerr + parser" where
  "read_paths w [] parser = Inr parser"
| "read_paths w (p # ps) parser =
     (case map_of (files w) p of
        None \<Rightarrow> Inl (ConfigFileNotFound p)
      | Some content \<Rightarrow>
          (case parser_read content parser of
             Inl e \<Rightarrow> Inl e
           | Inr parser' \<Rightarrow> read_paths w ps parser'))"

text \<open>
  Lines 257 to 263, the loop over the section fields; \<open>parser[field.name]\<close> is the proxy
  of the field's name.
\<close>

fun load_sections ::
  "class_store \<Rightarrow> parser \<Rightarrow> (cfg_class, section_instance) field list
     \<Rightarrow> pyerr + section_instance attrs" where
  "load_sections st parser [] = Inr []"
| "load_sections st parser (f # fs) =
     (if is_optional_type (ftype f) then Inl IssubclassNotAClass
      else case section_class_of (ftype f) of
        None \<Rightarrow> Inl (NotASectionClass (name f))
      | Some n \<Rightarrow>
          (case (if parser_contains parser (name f)
                 then from_config_section st n parser (Fixed (name f))
                 else new_section st n []) of
             Inl e \<Rightarrow> Inl e
           | Inr section \<Rightarrow>
               (case load_sections st parser fs of
                  Inl e \<Rightarrow> Inl e
                | Inr rest \<Rightarrow> Inr ((name f, Some section) # rest))))"

text \<open>Lines 241 to 255: the parser and the path that \<open>load\<close> passes on.\<close>

definition load_parser :: "world \<Rightarrow> path_arg \<Rightarrow> pyerr + parser \<times> path option" where
  "load_parser w path =
     (case path of
        NoPath \<Rightarrow> Inr (new_parser, None)
      | PathSequence ps \<Rightarrow>
          (case read_paths w ps new_parser of
             Inl e \<Rightarrow> Inl e
           | Inr parser \<Rightarrow> Inr (parser, None))
      | OnePath p \<Rightarrow>
          (case read_paths w [p] new_parser of
             Inl e \<Rightarrow> Inl e
           | Inr parser \<Rightarrow> Inr (parser, Some p))
      | OtherObject \<Rightarrow> Inl UnknownPathType)"

definition load ::
  "world \<Rightarrow> class_store \<Rightarrow> config_class \<Rightarrow> path_arg \<Rightarrow> pyerr + config_instance" where
  "load w st cls path =
     (case load_parser w path of
        Inl e \<Rightarrow> Inl e
      | Inr (parser, config_path) \<Rightarrow>
          (case load_sections st parser (get_section_fields cls) of
             Inl e \<Rightarrow> Inl e
           | Inr cls_sections \<Rightarrow> new_config cls cls_sections (Some parser) config_path))"

subsection \<open>\<open>save\<close>\<close>

text \<open>
  Lines 281 to 284, the loop over the section fields. In line 284 the right-hand side is
  evaluated first, and writes the field's options into the parser; the assignment then
  empties the section of the field's name and reads the proxy's items into it. What has
  been changed stays changed when a later step raises: the loop returns the parser
  together with the exception, if any.
\<close>

fun save_sections ::
  "class_store \<Rightarrow> section_instance attrs \<Rightarrow> (cfg_class, section_instance) field list
     \<Rightarrow> parser option \<Rightarrow> parser option \<times> pyerr option" where
  "save_sections st a [] parser = (parser, None)"
| "save_sections st a (f # fs) parser =
     (case getattr_or_none a (name f) of
        None \<Rightarrow> (parser, Some (NotASectionClass (name f)))
      | Some section \<Rightarrow>
          (case parser of
             None \<Rightarrow> (None, Some ParserIsNone)
           | Some p \<Rightarrow>
               (case to_config_section st section p of
                  (p1, Inl e) \<Rightarrow> (Some p1, Some e)
                | (p1, Inr nm) \<Rightarrow>
                    (case parser_setitem p1 (name f) nm of
                       (p2, Some e) \<Rightarrow> (Some p2, Some e)
                     | (p2, None) \<Rightarrow> save_sections st a fs (Some p2)))))"

text \<open>
  Lines 285 and 286: \<open>open(path, 'w')\<close> empties the file, and the parser writes its state
  to it.
\<close>

definition write_file :: "world \<Rightarrow> path \<Rightarrow> parser option \<Rightarrow> world \<times> pyerr option" where
  "write_file w path parser =
     (case faults w path of
        Some OpenFails \<Rightarrow> (w, Some (FileError path))
      | Some WriteFails \<Rightarrow> (w\<lparr>files := AList.update path [] (files w)\<rparr>, Some (FileError path))
      | None \<Rightarrow>
          (case parser of
             None \<Rightarrow> (w\<lparr>files := AList.update path [] (files w)\<rparr>, Some ParserIsNone)
           | Some p \<Rightarrow> (w\<lparr>files := AList.update path (parser_write p) (files w)\<rparr>, None)))"

text \<open>Lines 276 and 277: the path that \<open>save\<close> uses, if any.\<close>

definition save_path :: "config_instance \<Rightarrow> path option \<Rightarrow> path option" where
  "save_path self path = (case path of None \<Rightarrow> priv_config_path self | Some p \<Rightarrow> Some p)"

text \<open>
  \<open>save\<close> returns nothing; it changes the instance and the files, and may raise. The
  result is the instance and the files afterwards, and the exception if there is one.
\<close>

definition save ::
  "class_store \<Rightarrow> config_class \<Rightarrow> config_instance \<Rightarrow> path option \<Rightarrow> world
     \<Rightarrow> (config_instance \<times> world) \<times> pyerr option" where
  "save st cls self path w =
     (case save_path self path of
        None \<Rightarrow> ((self, w), Some NoConfigPathAvailable)
      | Some p \<Rightarrow>
          (case save_sections st (cfg_attrs self) (get_section_fields cls)
                  (priv_config_parser self) of
             (parser, Some e) \<Rightarrow> ((self\<lparr>priv_config_parser := parser\<rparr>, w), Some e)
           | (parser, None) \<Rightarrow>
               (case write_file w p parser of
                  (w', r) \<Rightarrow> ((self\<lparr>priv_config_parser := parser\<rparr>, w'), r))))"

section \<open>Notions of the specification\<close>

text \<open>
  The specification calls the tokens that convert to true "\<open>"1"\<close>, \<open>1\<close>,
  case-insensitive \<open>"true"\<close>". This is that set, in the specification's words.
\<close>

definition spec_truthy_token :: "pyval \<Rightarrow> bool" where
  "spec_truthy_token raw =
     (raw = Some (VStr ''1'') \<or> raw = Some (VInt 1) \<or>
      (case raw of Some (VStr s) \<Rightarrow> map lower_char s = ''true'' | _ \<Rightarrow> False))"

text \<open>
  The required fields that an instance leaves absent, in the order of declaration: the
  fields at which the loop of the mixin would raise.
\<close>

definition absent_required :: "('c, 'v) field list \<Rightarrow> 'v attrs \<Rightarrow> ('c, 'v) field list" where
  "absent_required fs a =
     filter (\<lambda>f. getattr_or_none a (name f) = None \<and> \<not> is_optional_type (ftype f)) fs"






section \<open>Example schemas, instances and files\<close>

text \<open>
  The schema \<open>Server{host: str = None, port: int = None, debug: Optional[bool] = None}\<close>
  of the specification's example, and a schema with a field of each scalar class.
\<close>

definition server_fields :: "(scalar_class, scalar) field list" where
  "server_fields =
     [\<lparr>name = ''host'', ftype = TClass PyStr, fdefault = Some None\<rparr>,
      \<lparr>name = ''port'', ftype = TClass PyInt, fdefault = Some None\<rparr>,
      \<lparr>name = ''debug'', ftype = TOptional (TClass PyBool), fdefault = Some None\<rparr>]"

definition flags_fields :: "(scalar_class, scalar) field list" where
  "flags_fields =
     [\<lparr>name = ''verbose'', ftype = TClass PyBool, fdefault = Some None\<rparr>,
      \<lparr>name = ''retries'', ftype = TClass PyInt, fdefault = Some None\<rparr>,
      \<lparr>name = ''label'', ftype = TClass PyStr, fdefault = Some None\<rparr>]"

text \<open>
  A store with the class \<open>Server\<close> of fixed name \<open>"server"\<close> as number 0, an
  automatically named class as number 1, a class of fixed name \<open>"database"\<close> as
  number 2, a subclass of class 1 with no name of its own as number 3, and a class named
  \<open>"labels"\<close> with the field \<open>Label\<close> as number 4; and a config class with a field of
  each of the first two.
\<close>

definition example_store :: class_store where
  "example_store =
     (\<lambda>n. \<lparr>own_section_name = None, mro = [], sfields = []\<rparr>)
       (0 := \<lparr>own_section_name = Some (Fixed ''server''), mro = [],
               sfields = server_fields\<rparr>,
        1 := \<lparr>own_section_name = None, mro = [], sfields = flags_fields\<rparr>,
        2 := \<lparr>own_section_name = Some (Fixed ''database''), mro = [], sfields = []\<rparr>,
        3 := \<lparr>own_section_name = None, mro = [1], sfields = flags_fields\<rparr>,
        4 := \<lparr>own_section_name = Some (Fixed ''labels''), mro = [],
               sfields = [\<lparr>name = ''Label'', ftype = TClass PyStr, fdefault = Some None\<rparr>]\<rparr>)"

definition example_config :: config_class where
  "example_config =
     \<lparr>cfields =
        [\<lparr>name = ''server'', ftype = TClass (SectionClass 0), fdefault = Some None\<rparr>,
         \<lparr>name = ''flags'', ftype = TClass (SectionClass 1), fdefault = Some None\<rparr>]\<rparr>"

text \<open>
  The store after \<open>config_dataclass\<close> has prepared \<open>example_config\<close>.
\<close>

definition prepared_store :: class_store where
  "prepared_store =
     example_store(1 := \<lparr>own_section_name = Some (Fixed ''flags''), mro = [],
                           sfields = flags_fields\<rparr>)"

text \<open>
  Instances of the section classes.
\<close>

definition example_server :: section_instance where
  "example_server =
     \<lparr>inst_class = 0,
      inst_attrs = [(''host'', Some (VStr [])), (''port'', Some (VInt 0)), (''debug'', None)]\<rparr>"

definition example_flags :: section_instance where
  "example_flags =
     \<lparr>inst_class = 1,
      inst_attrs =
        [(''verbose'', Some (VBool False)), (''retries'', Some (VInt (- 42))),
         (''label'', Some (VStr ''main''))]\<rparr>"








text \<open>
  The files: \<open>app.ini\<close> with the sections \<open>server\<close> and \<open>flags\<close>, and a path
  \<open>locked.ini\<close> that cannot be opened for writing. Then the parser after reading
  \<open>app.ini\<close>, and the instance that \<open>load\<close> makes of it, with its two sections.
\<close>

definition example_world :: world where
  "example_world =
     \<lparr>files =
        [(''app.ini'',
          [(''server'', [(''host'', ''localhost''), (''port'', ''8080'')]),
           (''flags'', [(''verbose'', ''1''), (''retries'', ''3''), (''label'', ''main'')])])],
      faults = (\<lambda>p. if p = ''locked.ini'' then Some OpenFails else None)\<rparr>"

definition loaded_parser :: parser where
  "loaded_parser =
     \<lparr>p_defaults = [],
      p_sections =
        [(''server'', [(''host'', ''localhost''), (''port'', ''8080'')]),
         (''flags'', [(''verbose'', ''1''), (''retries'', ''3''), (''label'', ''main'')])]\<rparr>"

definition loaded_server :: section_instance where
  "loaded_server =
     \<lparr>inst_class = 0,
      inst_attrs = [(''host'', Some (VStr ''localhost'')), (''port'', Some (VInt 8080)),
                    (''debug'', None)]\<rparr>"

definition loaded_flags :: section_instance where
  "loaded_flags =
     \<lparr>inst_class = 1,
      inst_attrs = [(''verbose'', Some (VBool True)), (''retries'', Some (VInt 3)),
                    (''label'', Some (VStr ''main''))]\<rparr>"

definition loaded_example :: config_instance where
  "loaded_example =
     \<lparr>cfg_attrs = [(''server'', Some loaded_server), (''flags'', Some loaded_flags)],
      priv_config_parser = Some loaded_parser,
      priv_config_path = None\<rparr>"

section \<open>Field conversion\<close>

text \<open>
  On the view of a \<open>dict\<close>, the method on a mapping is the method on the \<open>dict\<close>.
\<close>

lemma dict_view_methods:
  "view_keys (dict_view src) = Inr (map fst src)"
  "view_contains (dict_view src) k = (map_of src k \<noteq> None)"
  "view_getitem (dict_view src) k
     = (case map_of src k of None \<Rightarrow> Inl (OptionKeyError k) | Some v \<Rightarrow> Inr v)"
  by (simp_all add: dict_view_def)

lemma convert_fields_of_dict:
  "convert_fields_of_mapping fs (dict_view src) = convert_fields fs src"
  by (induction fs) (auto simp: dict_view_methods split: option.splits sum.splits)

lemma convert_from_dict:
  "convert_field_types_from_mapping fs (dict_view src) = convert_field_types_from_strings fs src"
  by (simp add: convert_field_types_from_mapping_def convert_field_types_from_strings_def
      convert_fields_of_dict dict_view_methods)

lemma convert_fields_Cons_Inr:
  assumes "convert_fields (g # gs) src = Inr conv"
  shows "(map_of src (name g) = None \<and> convert_fields gs src = Inr conv) \<or>
         (\<exists>r v rest. map_of src (name g) = Some r \<and> convert_value (ftype g) r = Inr v \<and>
            convert_fields gs src = Inr rest \<and> conv = (name g, v) # rest)"
proof (cases "map_of src (name g)")
  case None
  with assms show ?thesis by simp
next
  case (Some r)
  with assms show ?thesis
    by (cases "convert_value (ftype g) r"; cases "convert_fields gs src") simp_all
qed

lemma convert_fields_keys:
  "convert_fields fs src = Inr conv \<Longrightarrow> set (map fst conv) \<subseteq> set (map name fs)"
proof (induction fs arbitrary: conv)
  case Nil
  then show ?case by simp
next
  case (Cons g gs)
  from convert_fields_Cons_Inr[OF Cons.prems] show ?case
  proof
    assume "map_of src (name g) = None \<and> convert_fields gs src = Inr conv"
    with Cons.IH[of conv] show ?thesis by auto
  next
    assume "\<exists>r v rest. map_of src (name g) = Some r \<and> convert_value (ftype g) r = Inr v \<and>
            convert_fields gs src = Inr rest \<and> conv = (name g, v) # rest"
    then obtain r v rest where "convert_fields gs src = Inr rest" "conv = (name g, v) # rest"
      by blast
    with Cons.IH[of rest] show ?thesis by auto
  qed
qed


lemma convert_fields_lookup:
  assumes "convert_fields fs src = Inr conv" and "distinct (map name fs)" and "f \<in> set fs"
    and "map_of src (name f) = Some raw"
  shows "\<exists>v. convert_value (ftype f) raw = Inr v \<and> map_of conv (name f) = Some v"
  using assms
proof (induction fs arbitrary: conv)
  case Nil
  then show ?case by simp
next
  case (Cons g gs)
  from Cons.prems(2) have dgs: "distinct (map name gs)" and gnot: "name g \<notin> name ` set gs"
    by simp_all
  from convert_fields_Cons_Inr[OF Cons.prems(1)] show ?case
  proof (elim disjE exE conjE)
    assume skip: "map_of src (name g) = None" "convert_fields gs src = Inr conv"
    with Cons.prems(4) have "f \<noteq> g" by auto
    with Cons.prems(3) have "f \<in> set gs" by simp
    from Cons.IH[OF skip(2) dgs this Cons.prems(4)] show ?thesis .
  next
    fix r v rest
    assume conv: "map_of src (name g) = Some r" "convert_value (ftype g) r = Inr v"
        "convert_fields gs src = Inr rest" "conv = (name g, v) # rest"
    show ?thesis
    proof (cases "f = g")
      case True
      with conv Cons.prems(4) show ?thesis by simp
    next
      case False
      with Cons.prems(3) have fin: "f \<in> set gs" by simp
      with gnot have ne: "name f \<noteq> name g" by (metis imageI)
      from Cons.IH[OF conv(3) dgs fin Cons.prems(4)] obtain v' where
        "convert_value (ftype f) raw = Inr v'" "map_of rest (name f) = Some v'" by (elim exE conjE)
      with ne conv(4) show ?thesis by simp
    qed
  qed
qed

lemma convert_value_error:
  assumes "convert_value tp raw = Inl e"
  shows "e = NotConvertible \<or> e = CannotInstantiate \<or> (\<exists>s. e = InvalidLiteral s)"
proof (cases tp)
  case (TClass c)
  show ?thesis
  proof (cases c)
    case PyBool
    with assms TClass show ?thesis by (simp add: convert_value_def)
  next
    case PyInt
    with assms TClass have "py_int raw = Inl e" by (simp add: convert_value_def)
    then show ?thesis
      by (cases raw rule: py_int.cases) (auto split: option.splits)
  next
    case PyStr
    with assms TClass show ?thesis by (simp add: convert_value_def)
  qed
next
  case (TOptional t)
  with assms show ?thesis by (simp add: convert_value_def)
qed

lemma convert_fields_error:
  "convert_fields fs src = Inl e \<Longrightarrow>
   e = NotConvertible \<or> e = CannotInstantiate \<or> (\<exists>s. e = InvalidLiteral s)"
proof (induction fs)
  case Nil
  then show ?case by simp
next
  case (Cons g gs)
  show ?case
  proof (cases "map_of src (name g)")
    case None
    with Cons show ?thesis by simp
  next
    case (Some r)
    show ?thesis
    proof (cases "convert_value (ftype g) r")
      case (Inl e')
      with Some Cons.prems have "e' = e" by simp
      with Inl convert_value_error[of "ftype g" r e'] show ?thesis by simp
    next
      case (Inr v)
      with Some Cons.prems have "convert_fields gs src = Inl e"
        by (cases "convert_fields gs src") simp_all
      with Cons.IH show ?thesis by simp
    qed
  qed
qed


lemma convert_value_bool:
  "convert_value (TClass PyBool) raw =
     Inr (Some (VBool (py_in raw
       [Some (VStr ''1''), Some (VInt 1), Some (VStr ''true''), Some (VStr ''True''),
        Some (VStr ''TRUE'')])))"
  by (simp add: convert_value_def)


lemma convert_known_keys:
  "set (map fst src) \<subseteq> set (map name fs) \<Longrightarrow>
   convert_field_types_from_strings fs src = convert_fields fs src"
  by (simp add: convert_field_types_from_strings_def Let_def)

lemma convert_Inr_fields:
  assumes "convert_field_types_from_strings fs src = Inr conv"
  shows "convert_fields fs src = Inr conv"
proof (cases "set (map fst src) - set (map name fs) = {}")
  case True
  with assms show ?thesis by (simp add: convert_field_types_from_strings_def Let_def)
next
  case False
  with assms show ?thesis by (simp add: convert_field_types_from_strings_def Let_def)
qed

text \<open>
  Claim C2, as amended. When the conversion of a raw section succeeds, a field declared
  \<open>bool\<close> that the raw section has gets the value true exactly when the raw value is
  equal to one of the five tokens \<open>"1"\<close>, \<open>1\<close>, \<open>"true"\<close>, \<open>"True"\<close>, \<open>"TRUE"\<close> of
  line 121; a field of any other declared type gets what the declared type, called on
  the raw value, returns.
\<close>

theorem convert_by_declared_type:
  assumes "convert_field_types_from_strings fs src = Inr conv"
    and "distinct (map name fs)" and "f \<in> set fs" and "map_of src (name f) = Some raw"
  shows "(ftype f = TClass PyBool \<longrightarrow>
            map_of conv (name f) = Some (Some (VBool (py_in raw
              [Some (VStr ''1''), Some (VInt 1), Some (VStr ''true''), Some (VStr ''True''),
               Some (VStr ''TRUE'')]))))
       \<and> (ftype f \<noteq> TClass PyBool \<longrightarrow>
            (\<exists>v. call_type (ftype f) raw = Inr v \<and> map_of conv (name f) = Some v))"
proof -
  from convert_fields_lookup[OF convert_Inr_fields[OF assms(1)] assms(2,3,4)]
  obtain v where v: "convert_value (ftype f) raw = Inr v" "map_of conv (name f) = Some v"
    by (elim exE conjE)
  show ?thesis
  proof (cases "ftype f = TClass PyBool")
    case True
    with v show ?thesis by (simp add: convert_value_bool)
  next
    case False
    with v show ?thesis by (simp add: convert_value_def)
  qed
qed

text \<open>
  Claim C2, witness: the schema with a \<open>bool\<close>, an \<open>int\<close> and a \<open>str\<close> field, on
  \<open>verbose = TRUE\<close>, \<open>retries = 3\<close>.
\<close>

theorem convert_by_declared_type_witness:
  "convert_field_types_from_strings flags_fields
     [(''verbose'', Some (VStr ''TRUE'')), (''retries'', Some (VStr ''3''))]
     = Inr [(''verbose'', Some (VBool True)), (''retries'', Some (VInt 3))]
   \<and> map_of [(''verbose'', Some (VBool True)), (''retries'', Some (VInt 3))] ''verbose''
       = Some (Some (VBool True))
   \<and> call_type (TClass PyInt) (Some (VStr ''3'')) = Inr (Some (VInt 3))
   \<and> map_of [(''verbose'', Some (VBool True)), (''retries'', Some (VInt 3))] ''retries''
       = Some (Some (VInt 3))"
proof -
  let ?src = "[(''verbose'', Some (VStr ''TRUE'')), (''retries'', Some (VStr ''3''))]"
  let ?conv = "[(''verbose'', Some (VBool True)), (''retries'', Some (VInt 3))]"
  let ?v = "\<lparr>name = ''verbose'', ftype = TClass PyBool, fdefault = Some None\<rparr>
              :: (scalar_class, scalar) field"
  let ?r = "\<lparr>name = ''retries'', ftype = TClass PyInt, fdefault = Some None\<rparr>
              :: (scalar_class, scalar) field"
  have h1: "convert_field_types_from_strings flags_fields ?src = Inr ?conv"
    by code_simp
  have h2: "distinct (map name flags_fields)"
    by (simp add: flags_fields_def)
  have hv: "?v \<in> set flags_fields" and hr: "?r \<in> set flags_fields"
    by (simp_all add: flags_fields_def)
  have sv: "map_of ?src (name ?v) = Some (Some (VStr ''TRUE''))"
    and sr: "map_of ?src (name ?r) = Some (Some (VStr ''3''))"
    by simp_all
  from convert_by_declared_type[OF h1 h2 hv sv] convert_by_declared_type[OF h1 h2 hr sr] h1
  show ?thesis by auto
qed

text \<open>
  Claim C2, counterexample to "\<open>"true"\<close> in any letter casing": \<open>"tRuE"\<close> is
  \<open>"true"\<close> up to case, and the \<open>bool\<close> field becomes false.
\<close>

theorem bool_truthy_counterexample:
  "spec_truthy_token (Some (VStr ''tRuE''))
   \<and> convert_field_types_from_strings flags_fields [(''verbose'', Some (VStr ''tRuE''))]
       = Inr [(''verbose'', Some (VBool False))]"
  by code_simp





text \<open>
  Claim C3. When the raw section has a key that is no field name, the conversion raises
  \<open>UnknownFieldName\<close> with the set of all such keys; when every key is a field name, it
  does not raise \<open>UnknownFieldName\<close>.
\<close>

theorem unknown_field_names:
  "(set (map fst src) - set (map name fs) \<noteq> {} \<longrightarrow>
      convert_field_types_from_strings fs src
        = Inl (UnknownFieldName {k \<in> fst ` set src. k \<notin> name ` set fs}))
   \<and> (set (map fst src) \<subseteq> set (map name fs) \<longrightarrow>
        (\<forall>S. convert_field_types_from_strings fs src \<noteq> Inl (UnknownFieldName S)))"
proof (intro conjI impI allI)
  have eq: "set (map fst src) - set (map name fs) = {k \<in> fst ` set src. k \<notin> name ` set fs}"
    by auto
  assume "set (map fst src) - set (map name fs) \<noteq> {}"
  then show "convert_field_types_from_strings fs src
        = Inl (UnknownFieldName {k \<in> fst ` set src. k \<notin> name ` set fs})"
    unfolding eq[symmetric] by (simp add: convert_field_types_from_strings_def Let_def)
next
  fix S
  assume "set (map fst src) \<subseteq> set (map name fs)"
  then have "convert_field_types_from_strings fs src = convert_fields fs src"
    by (rule convert_known_keys)
  with convert_fields_error[of fs src "UnknownFieldName S"]
  show "convert_field_types_from_strings fs src \<noteq> Inl (UnknownFieldName S)"
    by auto
qed

text \<open>
  Claim C3, witness: two unknown keys are both reported; a section of known keys fails
  only by the conversion of a value.
\<close>

theorem unknown_field_names_witness:
  "set (map fst [(''colour'', Some (VStr ''red'')), (''host'', Some (VStr ''h'')),
                 (''shape'', Some (VStr ''round''))]) - set (map name server_fields) \<noteq> {}
   \<and> convert_field_types_from_strings server_fields
        [(''colour'', Some (VStr ''red'')), (''host'', Some (VStr ''h'')),
         (''shape'', Some (VStr ''round''))]
       = Inl (UnknownFieldName {''colour'', ''shape''})
   \<and> set (map fst [(''port'', Some (VStr ''80x''))]) \<subseteq> set (map name server_fields)
   \<and> convert_field_types_from_strings server_fields [(''port'', Some (VStr ''80x''))]
       = Inl (InvalidLiteral ''80x'')"
proof -
  let ?bad = "[(''colour'', Some (VStr ''red'')), (''host'', Some (VStr ''h'')),
               (''shape'', Some (VStr ''round''))]"
  let ?ok = "[(''port'', Some (VStr ''80x''))]"
  have h1: "set (map fst ?bad) - set (map name server_fields) \<noteq> {}"
    by (simp add: server_fields_def)
  have s: "{k \<in> fst ` set ?bad. k \<notin> name ` set server_fields} = {''colour'', ''shape''}"
    by (auto simp: server_fields_def)
  have h2: "set (map fst ?ok) \<subseteq> set (map name server_fields)"
    by (simp add: server_fields_def)
  have r: "convert_field_types_from_strings server_fields ?ok = Inl (InvalidLiteral ''80x'')"
    by code_simp
  from unknown_field_names[of ?bad server_fields] unknown_field_names[of ?ok server_fields]
    h1 h2 s r
  show ?thesis by simp
qed

section \<open>Required fields\<close>

text \<open>
  The section names of the classes of the example store.
\<close>

lemma example_store_names:
  "section_name example_store 0 = Fixed ''server''"
  "section_name example_store (Suc 0) = AUTO_NAME"
  "section_name example_store 2 = Fixed ''database''"
  "section_name example_store 3 = AUTO_NAME"
  "section_name example_store 4 = Fixed ''labels''"
  by (simp_all add: section_name_def example_store_def)

lemma example_store_fields:
  "sfields (example_store 0) = server_fields"
  "sfields (example_store (Suc 0)) = flags_fields"
  "sfields (prepared_store 0) = server_fields"
  "sfields (prepared_store (Suc 0)) = flags_fields"
  by (simp_all add: prepared_store_def example_store_def)

lemma prepared_store_names:
  "section_name prepared_store 0 = Fixed ''server''"
  "section_name prepared_store (Suc 0) = Fixed ''flags''"
  "section_name prepared_store 3 = Fixed ''flags''"
  "section_name prepared_store 4 = Fixed ''labels''"
  by (simp_all add: section_name_def prepared_store_def example_store_def)

text \<open>
  The loop of the mixin stops at the first absent required field.
\<close>

lemma check_none_fields_absent:
  "check_none_fields fs a =
     (case absent_required fs a of [] \<Rightarrow> Inr () | m # ms \<Rightarrow> Inl (MissingRequiredField (name m)))"
  by (induction fs) (simp_all add: absent_required_def)

lemma absent_required_Nil:
  "(absent_required fs a = []) =
     (\<forall>f\<in>set fs. getattr_or_none a (name f) = None \<longrightarrow> is_optional_type (ftype f))"
  by (auto simp: absent_required_def filter_empty_conv)

lemma new_section_checked:
  assumes "section_name st n \<noteq> AUTO_NAME" and "dataclass_init (sfields (st n)) kw = Inr a"
  shows "new_section st n kw =
     (case absent_required (sfields (st n)) a of
        [] \<Rightarrow> Inr \<lparr>inst_class = n, inst_attrs = a\<rparr>
      | m # ms \<Rightarrow> Inl (MissingRequiredField (name m)))"
  using assms
  by (simp add: new_section_def section_post_init_def check_none_fields_absent split: list.splits)

lemma new_config_checked:
  assumes "dataclass_init (cfields cls) kw = Inr a"
  shows "new_config cls kw p cp =
     (case absent_required (cfields cls) a of
        [] \<Rightarrow> Inr \<lparr>cfg_attrs = a, priv_config_parser = p, priv_config_path = None\<rparr>
      | m # ms \<Rightarrow> Inl (MissingRequiredField (name m)))"
  using assms
  by (simp add: new_config_def config_post_init_def check_none_fields_absent split: list.splits)

text \<open>
  Claim C4. Let the generated \<open>__init__\<close> bind the attributes \<open>a\<close>, for a section class
  whose name is set, or for a config class. If some field of a type that is not optional
  is \<open>None\<close>, the construction raises \<open>MissingRequiredField\<close>. If every field that is
  \<open>None\<close> is of an optional type, the construction returns the instance, whatever the
  other values are (0 and the empty string are not \<open>None\<close>).
\<close>

theorem required_fields_checked:
  "(section_name st n \<noteq> AUTO_NAME \<and> dataclass_init (sfields (st n)) kw = Inr a \<longrightarrow>
      ((\<exists>f\<in>set (sfields (st n)).
          getattr_or_none a (name f) = None \<and> \<not> is_optional_type (ftype f)) \<longrightarrow>
         (\<exists>m. new_section st n kw = Inl (MissingRequiredField m)))
    \<and> ((\<forall>f\<in>set (sfields (st n)).
          getattr_or_none a (name f) = None \<longrightarrow> is_optional_type (ftype f)) \<longrightarrow>
         new_section st n kw = Inr \<lparr>inst_class = n, inst_attrs = a\<rparr>))
   \<and> (dataclass_init (cfields cls) ckw = Inr ca \<longrightarrow>
      ((\<exists>f\<in>set (cfields cls).
          getattr_or_none ca (name f) = None \<and> \<not> is_optional_type (ftype f)) \<longrightarrow>
         (\<exists>m. new_config cls ckw p cp = Inl (MissingRequiredField m)))
    \<and> ((\<forall>f\<in>set (cfields cls).
          getattr_or_none ca (name f) = None \<longrightarrow> is_optional_type (ftype f)) \<longrightarrow>
         new_config cls ckw p cp
           = Inr \<lparr>cfg_attrs = ca, priv_config_parser = p, priv_config_path = None\<rparr>))"
proof (intro conjI impI)
  assume h: "section_name st n \<noteq> AUTO_NAME \<and> dataclass_init (sfields (st n)) kw = Inr a"
  note eq = new_section_checked[of st n kw a]
  {
    assume "\<exists>f\<in>set (sfields (st n)).
          getattr_or_none a (name f) = None \<and> \<not> is_optional_type (ftype f)"
    then have "absent_required (sfields (st n)) a \<noteq> []"
      by (simp add: absent_required_Nil)
    with h eq show "\<exists>m. new_section st n kw = Inl (MissingRequiredField m)"
      by (cases "absent_required (sfields (st n)) a") simp_all
  }
  {
    assume "\<forall>f\<in>set (sfields (st n)).
          getattr_or_none a (name f) = None \<longrightarrow> is_optional_type (ftype f)"
    then have "absent_required (sfields (st n)) a = []"
      by (simp add: absent_required_Nil)
    with h eq show "new_section st n kw = Inr \<lparr>inst_class = n, inst_attrs = a\<rparr>"
      by simp
  }
next
  assume h: "dataclass_init (cfields cls) ckw = Inr ca"
  note eq = new_config_checked[OF h, of p cp]
  {
    assume "\<exists>f\<in>set (cfields cls).
          getattr_or_none ca (name f) = None \<and> \<not> is_optional_type (ftype f)"
    then have "absent_required (cfields cls) ca \<noteq> []"
      by (simp add: absent_required_Nil)
    with eq show "\<exists>m. new_config cls ckw p cp = Inl (MissingRequiredField m)"
      by (cases "absent_required (cfields cls) ca") simp_all
  }
  {
    assume "\<forall>f\<in>set (cfields cls).
          getattr_or_none ca (name f) = None \<longrightarrow> is_optional_type (ftype f)"
    then have "absent_required (cfields cls) ca = []"
      by (simp add: absent_required_Nil)
    with eq show "new_config cls ckw p cp
           = Inr \<lparr>cfg_attrs = ca, priv_config_parser = p, priv_config_path = None\<rparr>"
      by simp
  }
qed

text \<open>
  Claim C4, witness: \<open>Server(host="", port=0)\<close> is made, with the optional \<open>debug\<close>
  absent; \<open>Server(host="")\<close> is refused; and the same for a config instance with and
  without its second section.
\<close>

theorem required_fields_checked_witness:
  "new_section example_store 0 [(''host'', Some (VStr [])), (''port'', Some (VInt 0))]
     = Inr example_server
   \<and> (\<exists>m. new_section example_store 0 [(''host'', Some (VStr []))]
            = Inl (MissingRequiredField m))
   \<and> new_config example_config
        [(''server'', Some example_server), (''flags'', Some example_flags)] None None
       = Inr \<lparr>cfg_attrs = [(''server'', Some example_server), (''flags'', Some example_flags)],
              priv_config_parser = None, priv_config_path = None\<rparr>
   \<and> (\<exists>m. new_config example_config [(''server'', Some example_server)] None None
            = Inl (MissingRequiredField m))"
proof -
  let ?kw1 = "[(''host'', Some (VStr [])), (''port'', Some (VInt 0))]"
  let ?kw2 = "[(''host'', Some (VStr []))]"
  let ?a2 = "[(''host'', Some (VStr [])), (''port'', None), (''debug'', None)]"
  let ?c1 = "[(''server'', Some example_server), (''flags'', Some example_flags)]"
  let ?c2 = "[(''server'', Some example_server), (''flags'', None)]"
  have n: "section_name example_store 0 \<noteq> AUTO_NAME"
    by (simp add: example_store_names)
  have i1: "dataclass_init (sfields (example_store 0)) ?kw1 = Inr (inst_attrs example_server)"
    by (simp add: example_store_def server_fields_def dataclass_init_def bind_field_def
        example_server_def)
  have i2: "dataclass_init (sfields (example_store 0)) ?kw2 = Inr ?a2"
    by (simp add: example_store_def server_fields_def dataclass_init_def bind_field_def)
  have ok1: "\<forall>f\<in>set (sfields (example_store 0)).
          getattr_or_none (inst_attrs example_server) (name f) = None
            \<longrightarrow> is_optional_type (ftype f)"
    by (simp add: example_store_def server_fields_def getattr_or_none_def example_server_def)
  have bad2: "\<exists>f\<in>set (sfields (example_store 0)).
          getattr_or_none ?a2 (name f) = None \<and> \<not> is_optional_type (ftype f)"
    by (simp add: example_store_def server_fields_def getattr_or_none_def)
  have j1: "dataclass_init (cfields example_config) ?c1 = Inr ?c1"
    by (simp add: example_config_def dataclass_init_def bind_field_def)
  have j2: "dataclass_init (cfields example_config) [(''server'', Some example_server)] = Inr ?c2"
    by (simp add: example_config_def dataclass_init_def bind_field_def)
  have cok1: "\<forall>f\<in>set (cfields example_config).
          getattr_or_none ?c1 (name f) = None \<longrightarrow> is_optional_type (ftype f)"
    by (simp add: example_config_def getattr_or_none_def)
  have cbad2: "\<exists>f\<in>set (cfields example_config).
          getattr_or_none ?c2 (name f) = None \<and> \<not> is_optional_type (ftype f)"
    by (simp add: example_config_def getattr_or_none_def)
  have e: "\<lparr>inst_class = 0, inst_attrs = inst_attrs example_server\<rparr> = example_server"
    by (simp add: example_server_def)
  from required_fields_checked[of example_store 0 ?kw1 "inst_attrs example_server"
         example_config ?c1 ?c1 None None] n i1 ok1 j1 cok1 e
  have good: "new_section example_store 0 ?kw1 = Inr example_server"
     "new_config example_config ?c1 None None
       = Inr \<lparr>cfg_attrs = ?c1, priv_config_parser = None, priv_config_path = None\<rparr>"
    by simp_all
  from required_fields_checked[of example_store 0 ?kw2 ?a2
         example_config "[(''server'', Some example_server)]" ?c2 None None] n i2 bad2 j2 cbad2
  have bad: "\<exists>m. new_section example_store 0 ?kw2 = Inl (MissingRequiredField m)"
    "\<exists>m. new_config example_config [(''server'', Some example_server)] None None
            = Inl (MissingRequiredField m)"
    by blast+
  from good bad show ?thesis by simp
qed

text \<open>
  Claim C5, as amended. When required fields are absent, the failure names the first of
  them in the order of declaration.
\<close>

theorem first_missing_field_reported:
  "(section_name st n \<noteq> AUTO_NAME \<and> dataclass_init (sfields (st n)) kw = Inr a
      \<and> absent_required (sfields (st n)) a = m # ms
      \<longrightarrow> new_section st n kw = Inl (MissingRequiredField (name m)))
   \<and> (dataclass_init (cfields cls) ckw = Inr ca \<and> absent_required (cfields cls) ca = cm # cms
      \<longrightarrow> new_config cls ckw p cp = Inl (MissingRequiredField (name cm)))"
  by (simp add: new_section_checked new_config_checked)

text \<open>
  Claim C5, witness: \<open>Server()\<close> lacks \<open>host\<close> and \<open>port\<close> and the failure names
  \<open>host\<close>; a config instance without sections names its first field.
\<close>

theorem first_missing_field_reported_witness:
  "map name (absent_required (sfields (example_store 0))
       [(''host'', None), (''port'', None), (''debug'', None)]) = [''host'', ''port'']
   \<and> new_section example_store 0 [] = Inl (MissingRequiredField ''host'')
   \<and> map name (absent_required (cfields example_config) [(''server'', None), (''flags'', None)])
       = [''server'', ''flags'']
   \<and> new_config example_config [] None None = Inl (MissingRequiredField ''server'')"
proof -
  let ?a = "[(''host'', None), (''port'', None), (''debug'', None)] :: scalar attrs"
  let ?ca = "[(''server'', None), (''flags'', None)] :: section_instance attrs"
  let ?h = "\<lparr>name = ''host'', ftype = TClass PyStr, fdefault = Some None\<rparr>
              :: (scalar_class, scalar) field"
  let ?p = "\<lparr>name = ''port'', ftype = TClass PyInt, fdefault = Some None\<rparr>
              :: (scalar_class, scalar) field"
  have n: "section_name example_store 0 \<noteq> AUTO_NAME"
    by (simp add: example_store_names)
  have i: "dataclass_init (sfields (example_store 0)) [] = Inr ?a"
    by (simp add: example_store_def server_fields_def dataclass_init_def bind_field_def)
  have ab: "absent_required (sfields (example_store 0)) ?a = [?h, ?p]"
    by (simp add: example_store_def server_fields_def absent_required_def getattr_or_none_def)
  have j: "dataclass_init (cfields example_config) [] = Inr ?ca"
    by (simp add: example_config_def dataclass_init_def bind_field_def)
  have cab: "absent_required (cfields example_config) ?ca = cfields example_config"
    by (simp add: example_config_def absent_required_def getattr_or_none_def)
  have cab': "cfields example_config = hd (cfields example_config) # tl (cfields example_config)"
    by (simp add: example_config_def)
  from first_missing_field_reported[of example_store 0 "[]" ?a ?h "[?p]" example_config "[]" ?ca
          "hd (cfields example_config)" "tl (cfields example_config)" None None]
       n i ab j cab cab'
  have "new_section example_store 0 [] = Inl (MissingRequiredField ''host'')"
    "new_config example_config [] None None = Inl (MissingRequiredField ''server'')"
    by (simp_all add: example_config_def)
  with ab cab show ?thesis
    by (simp add: example_config_def)
qed

text \<open>
  Claim C5, counterexample to the batch report: \<open>Server()\<close> leaves the two required fields
  \<open>host\<close> and \<open>port\<close> absent, and the failure carries the one name \<open>host\<close>.
\<close>

theorem batch_missing_counterexample:
  "map name (absent_required (sfields (example_store 0))
       [(''host'', None), (''port'', None), (''debug'', None)]) = [''host'', ''port'']
   \<and> dataclass_init (sfields (example_store 0)) []
       = Inr [(''host'', None), (''port'', None), (''debug'', None)]
   \<and> new_section example_store 0 [] = Inl (MissingRequiredField ''host'')"
  by (simp add: example_store_names example_store_fields new_section_def section_post_init_def
      server_fields_def absent_required_def getattr_or_none_def dataclass_init_def
      bind_field_def)

section \<open>Schema preparation\<close>








lemma mro_assigned:
  "mro ((st(k := (st k)\<lparr>own_section_name := Some s\<rparr>)) n) = mro (st n)"
  by simp

lemma stamp_names_mro:
  "mro (stamp_names fs st n) = mro (st n)"
proof (induction fs arbitrary: st)
  case Nil
  then show ?case by simp
next
  case (Cons g gs)
  show ?case
    by (cases "section_class_of (ftype g)") (simp_all add: Cons.IH)
qed













section \<open>The round trip of a section\<close>

text \<open>
  \<open>int(str(i))\<close> is \<open>i\<close>: the decimal digits of a number are read back as the number.
\<close>

lemma digit_char_props:
  assumes "d < 10"
  shows "is_digit (digit_char d)" and "digit_val (digit_char d) = d"
    and "\<not> is_space (digit_char d)" and "digit_char d \<noteq> CHR ''-''"
    and "digit_char d \<noteq> CHR ''+''" and "digit_char d \<noteq> CHR ''_''"
proof -
  from assms have m: "(48 + d) mod 256 = 48 + d" by simp
  then have oc: "(of_char (digit_char d) :: nat) = 48 + d"
    by (simp add: digit_char_def)
  from oc assms show "is_digit (digit_char d)" by (simp add: is_digit_def)
  from oc show "digit_val (digit_char d) = d" by (simp add: digit_val_def)
  from oc assms show "\<not> is_space (digit_char d)" by (simp add: is_space_def Let_def)
  from oc have "\<And>c. (of_char c :: nat) < 48 \<Longrightarrow> digit_char d \<noteq> c" by auto
  then show "digit_char d \<noteq> CHR ''-''" "digit_char d \<noteq> CHR ''+''"
    by simp_all
  from oc have "\<And>c. (of_char c :: nat) > 57 \<Longrightarrow> digit_char d \<noteq> c" using assms by auto
  then show "digit_char d \<noteq> CHR ''_''"
    by simp
qed

lemma str_of_nat_digits: "list_all is_digit (str_of_nat n) \<and> str_of_nat n \<noteq> []"
proof (induction n rule: str_of_nat.induct)
  case (1 n)
  show ?case
  proof (cases "n < 10")
    case True
    then show ?thesis
      by (simp add: str_of_nat.simps[of n] digit_char_props)
  next
    case False
    with 1 have "list_all is_digit (str_of_nat (n div 10))" by simp
    with False show ?thesis
      by (simp add: str_of_nat.simps[of n] digit_char_props)
  qed
qed

lemma digits_val_digits:
  "list_all is_digit ds \<Longrightarrow>
   digits_val acc ds = Some (foldl (\<lambda>a c. 10 * a + digit_val c) acc ds)"
  by (induction ds arbitrary: acc) simp_all

lemma foldl_str_of_nat: "foldl (\<lambda>a c. 10 * a + digit_val c) 0 (str_of_nat n) = n"
proof (induction n rule: str_of_nat.induct)
  case (1 n)
  show ?case
  proof (cases "n < 10")
    case True
    then show ?thesis
      by (simp add: str_of_nat.simps[of n] digit_char_props)
  next
    case False
    with 1 have "foldl (\<lambda>a c. 10 * a + digit_val c) 0 (str_of_nat (n div 10)) = n div 10"
      by simp
    with False show ?thesis
      by (simp add: str_of_nat.simps[of n] digit_char_props)
  qed
qed

lemma nat_of_str_of_nat: "nat_of_str (str_of_nat n) = Some n"
proof -
  from str_of_nat_digits[of n] obtain c cs where s: "str_of_nat n = c # cs" and c: "is_digit c"
    by (cases "str_of_nat n") auto
  from str_of_nat_digits[of n] have "digits_val 0 (str_of_nat n) = Some n"
    by (simp add: digits_val_digits foldl_str_of_nat)
  with s c show ?thesis
    by (simp add: nat_of_str_def)
qed

lemma is_digit_not_special:
  assumes "is_digit c"
  shows "\<not> is_space c" and "c \<noteq> CHR ''-''" and "c \<noteq> CHR ''+''"
proof -
  from assms show "\<not> is_space c" by (simp add: is_digit_def is_space_def Let_def)
  from assms show "c \<noteq> CHR ''-''" "c \<noteq> CHR ''+''" by (auto simp: is_digit_def)
qed

lemma strip_id:
  assumes "s \<noteq> []" and "\<not> is_space (hd s)" and "\<not> is_space (last s)"
  shows "strip s = s"
proof -
  from assms(1,2) have "dropWhile is_space s = s"
    by (cases s) simp_all
  moreover from assms(1,3) have "dropWhile is_space (rev s) = rev s"
    by (cases "rev s") (simp_all add: last_rev[symmetric] del: last_rev)
  ultimately show ?thesis
    by (simp add: strip_def)
qed

lemma str_of_nat_ends:
  "str_of_nat n \<noteq> [] \<and> is_digit (hd (str_of_nat n)) \<and> is_digit (last (str_of_nat n))"
proof -
  from str_of_nat_digits[of n] have d: "\<forall>c\<in>set (str_of_nat n). is_digit c" and ne: "str_of_nat n \<noteq> []"
    by (simp_all add: list_all_iff)
  from ne have "hd (str_of_nat n) \<in> set (str_of_nat n)" "last (str_of_nat n) \<in> set (str_of_nat n)"
    by simp_all
  with d ne show ?thesis by blast
qed

lemma int_of_str_of_int: "int_of_str (str_of_int i) = Some i"
proof (cases "i < 0")
  case True
  let ?s = "str_of_nat (nat (- i))"
  from str_of_nat_ends[of "nat (- i)"] have ne: "?s \<noteq> []" and l: "\<not> is_space (last ?s)"
    by (simp_all add: is_digit_not_special)
  have "\<not> is_space CHR ''-''"
    by (simp add: is_space_def)
  with ne l have "strip (CHR ''-'' # ?s) = CHR ''-'' # ?s"
    by (intro strip_id) simp_all
  with True show ?thesis
    by (simp add: int_of_str_def str_of_int_def nat_of_str_of_nat)
next
  case False
  let ?s = "str_of_nat (nat i)"
  from str_of_nat_ends[of "nat i"] obtain c cs where s: "?s = c # cs" and c: "is_digit c"
    and l: "is_digit (last ?s)"
    by (cases ?s) auto
  from s c l have "strip ?s = ?s"
    by (intro strip_id) (simp_all add: is_digit_not_special)
  moreover from nat_of_str_of_nat[of "nat i"] s have "nat_of_str (c # cs) = Some (nat i)"
    by simp
  ultimately show ?thesis
    using False s c by (simp add: int_of_str_def str_of_int_def is_digit_not_special)
qed





lemma convert_fields_all:
  assumes "\<forall>f\<in>set fs. map_of src (name f) = Some (raw (name f))
             \<and> convert_value (ftype f) (raw (name f)) = Inr (val (name f))"
  shows "convert_fields fs src = Inr (map (\<lambda>f. (name f, val (name f))) fs)"
  using assms by (induction fs) simp_all







lemma interpolate_some_plain:
  "CHR ''%'' \<notin> set v \<Longrightarrow> interpolate_some m (Suc l) 0 v = Inr v"
  by (induction v) auto









text \<open>
  The values of the examples, written, validated and read.
\<close>

lemma digit_char_literals:
  "digit_char 0 = CHR ''0''" "digit_char 1 = CHR ''1''" "digit_char 2 = CHR ''2''"
  "digit_char 3 = CHR ''3''" "digit_char 4 = CHR ''4''" "digit_char 5 = CHR ''5''"
  "digit_char 6 = CHR ''6''" "digit_char 7 = CHR ''7''" "digit_char 8 = CHR ''8''"
  "digit_char 9 = CHR ''9''"
  by (simp_all add: digit_char_def char_of_def bit_numeral_simps bit_Suc_0_iff)

lemma example_numbers:
  "str_of_int (- 42) = ''-42''" "str_of_int 3 = ''3''" "str_of_int 8080 = ''8080''"
  by (simp_all add: str_of_int_def str_of_nat.simps digit_char_literals)

lemma example_options:
  "optionxform ''verbose'' = ''verbose''" "optionxform ''retries'' = ''retries''"
  "optionxform ''label'' = ''label''" "optionxform ''Label'' = ''label''"
  "optionxform ''host'' = ''host''" "optionxform ''port'' = ''port''"
  "optionxform ''debug'' = ''debug''"
  by (simp_all add: optionxform_def py_lower_def lower_char_def Let_def char_of_def
      bit_numeral_simps bit_Suc_0_iff)




lemma plain_value_read: "CHR ''%'' \<notin> set v \<Longrightarrow> interpolate_some m 10 0 v = Inr v"
  by (simp add: numeral_eq_Suc interpolate_some_plain del: interpolate_some.simps)

lemma example_ints: "int_of_str ''-42'' = Some (- 42)" "int_of_str ''3'' = Some 3"
  using int_of_str_of_int[of "- 42"] int_of_str_of_int[of 3]
  by (simp_all add: example_numbers)



section \<open>Loading and saving\<close>

text \<open>
  Whatever \<open>load\<close> is given, the instance it returns has no path: \<open>__post_init__\<close>
  drops its argument \<open>config_path\<close>.
\<close>

lemma load_path_None:
  assumes "load w st cls path = Inr inst"
  shows "priv_config_path inst = None"
proof -
  from assms obtain kw p cp where "new_config cls kw p cp = Inr inst"
    by (auto simp: load_def split: sum.splits prod.splits)
  then show ?thesis
    by (auto simp: new_config_def config_post_init_def split: sum.splits)
qed

text \<open>
  The file \<open>app.ini\<close> of the example, read and converted.
\<close>

lemma read_example_file:
  "read_paths example_world [''app.ini''] new_parser = Inr loaded_parser"
  by (simp add: example_world_def parser_read_def new_parser_def loaded_parser_def
      example_options default_section_def)

lemma example_port: "int_of_str ''8080'' = Some 8080"
  using int_of_str_of_int[of 8080] by (simp add: example_numbers)

lemmas read_section =
  from_config_section_def convert_field_types_from_mapping_def proxy_view_def
  proxy_options_def parser_options_def section_dict_def proxy_getitem_def has_option_def
  parser_get_def unify_values_def example_options default_section_def plain_value_read
  convert_value_def py_in_def new_section_def section_post_init_def dataclass_init_def
  bind_field_def getattr_or_none_def Let_def

lemma load_example_sections:
  "from_config_section prepared_store 0 loaded_parser (Fixed ''server'') = Inr loaded_server"
  "from_config_section prepared_store (Suc 0) loaded_parser (Fixed ''flags'') = Inr loaded_flags"
  by (simp_all add: read_section prepared_store_names example_store_fields server_fields_def
      flags_fields_def loaded_parser_def loaded_server_def loaded_flags_def example_port
      example_ints del: interpolate_some.simps)

text \<open>
  Claim C1, the code at the failing input. \<open>load("app.ini")\<close> returns an instance whose
  \<open>_config_path\<close> is \<open>None\<close>, and \<open>save()\<close> on it raises \<open>NoConfigPathAvailable\<close>
  and writes nothing, where the claim has it write to \<open>app.ini\<close>.
\<close>

theorem load_forgets_single_path:
  "load example_world prepared_store example_config (OnePath ''app.ini'') = Inr loaded_example
   \<and> priv_config_path loaded_example = None
   \<and> save prepared_store example_config loaded_example None example_world
       = ((loaded_example, example_world), Some NoConfigPathAvailable)"
proof -
  have "parser_contains loaded_parser ''server''" "parser_contains loaded_parser ''flags''"
    by (simp_all add: parser_contains_def loaded_parser_def)
  then have sections: "load_sections prepared_store loaded_parser (cfields example_config)
      = Inr [(''server'', Some loaded_server), (''flags'', Some loaded_flags)]"
    by (simp add: example_config_def load_example_sections)
  have "load example_world prepared_store example_config (OnePath ''app.ini'')
      = Inr loaded_example"
    by (simp add: load_def load_parser_def read_example_file get_section_fields_def sections
        del: read_paths.simps load_sections.simps)
       (simp add: new_config_def config_post_init_def dataclass_init_def bind_field_def
        getattr_or_none_def loaded_example_def example_config_def)
  moreover have "priv_config_path loaded_example = None"
    by (simp add: loaded_example_def)
  ultimately show ?thesis
    by (simp add: save_def save_path_def)
qed













end
